theory Spec2Isabelle
  imports Main "HOL-Library.Word" "HOL-Library.Sublist"
begin

unbundle bit_operations_syntax

section \<open>Go values shared by the two packages\<close>

text \<open>
  A Go \<^verbatim>\<open>byte\<close> is an 8-bit word, a \<^verbatim>\<open>[]byte\<close> and a Go string are byte
  sequences. Literals of the source (log lines, URLs, method names) are written as HOL
  strings.
\<close>

type_synonym byte = "8 word"

text \<open>
  Run-time panics of the Go operations the code uses: indexing and slicing out of range,
  closing a nil or an already closed channel.
\<close>

datatype panic =
    IndexOutOfRange nat nat
  | SliceBoundsOutOfRange nat nat
  | CloseOfNilChannel
  | CloseOfClosedChannel

text \<open>\<^verbatim>\<open>xs[i]\<close> and \<^verbatim>\<open>xs[i:]\<close>, with Go's bounds checks.\<close>

definition go_index :: "'a list \<Rightarrow> nat \<Rightarrow> panic + 'a" where
  "go_index xs i = (if i < length xs then Inr (xs ! i) else Inl (IndexOutOfRange i (length xs)))"

definition go_slice_from :: "'a list \<Rightarrow> nat \<Rightarrow> panic + 'a list" where
  "go_slice_from xs i =
     (if i \<le> length xs then Inr (drop i xs) else Inl (SliceBoundsOutOfRange i (length xs)))"

text \<open>
  The built-in \<^verbatim>\<open>copy(dst, src)\<close>: it copies \<open>min (len dst) (len src)\<close> elements to
  the front of \<open>dst\<close> and returns that number.
\<close>

definition go_copy :: "'a list \<Rightarrow> 'a list \<Rightarrow> nat \<times> 'a list" where
  "go_copy dst src =
     (let n = min (length dst) (length src) in (n, take n src @ drop n dst))"

text \<open>
  \<^verbatim>\<open>string(b)\<close> for a byte \<open>b\<close>: the conversion of an integer to a string gives the
  UTF-8 encoding of that code point, one byte below 0x80 and two bytes from 0x80 on.
\<close>

definition string_of_byte :: "byte \<Rightarrow> byte list" where
  "string_of_byte b =
     (if b < 0x80 then [b] else [0xC0 OR drop_bit 6 b, 0x80 OR (b AND 0x3F)])"

text \<open>
  \<^verbatim>\<open>rpcmessages.ErrorResponse\<close> is declared outside the sources at hand; the code reads
  its field \<^verbatim>\<open>Success\<close> and uses the value as an \<^verbatim>\<open>error\<close>. The remaining
  fields are kept opaque in \<open>Detail\<close>.
\<close>

record ErrorResponse =
  Success :: bool
  Detail :: string

text \<open>The zero value \<^verbatim>\<open>rpcmessages.ErrorResponse{}\<close>.\<close>

definition ErrorResponse_zero :: ErrorResponse where
  "ErrorResponse_zero = \<lparr>Success = False, Detail = []\<rparr>"

text \<open>
  Go \<^verbatim>\<open>error\<close> values as the code builds them: an error of a library call (HTTP,
  websocket, net/rpc), \<^verbatim>\<open>errp.New\<close>, \<^verbatim>\<open>errp.WithStack\<close>, and an
  \<^verbatim>\<open>ErrorResponse\<close> returned as an error. A nil error is \<open>None\<close>. The last two
  are the handshake errors of the spec's taxonomy (section 7, class 2): the generic
  failure and the mismatch against a pinned key.
\<close>

datatype go_error =
    LibraryError string
  | ErrpNew string
  | ErrpWithStack go_error
  | ReplyError ErrorResponse
  | HandshakeFailed
  | PinMismatch

section \<open>rpcConn: the io.ReadWriteCloser under the rpc client\<close>

text \<open>
  Channels are shared objects. The close channel is a reference into a store that records
  whether the channel has been closed; \<open>None\<close> is the nil channel. The two unbuffered
  data channels are modelled by the messages sent and not yet received, oldest first.
\<close>

type_synonym chan_ref = nat

datatype chan_state = ChanOpen | ChanClosed

type_synonym chan_store = "chan_ref \<Rightarrow> chan_state"

record rpcConn =
  readChan :: "byte list list"
  writeChan :: "byte list list"
  closeChan :: "chan_ref option"

text \<open>\<^verbatim>\<open>close(ch)\<close> panics on a nil channel and on a channel that is already closed.\<close>

definition go_close :: "chan_store \<Rightarrow> chan_ref option \<Rightarrow> panic + chan_store" where
  "go_close store ch =
     (case ch of
        None \<Rightarrow> Inl CloseOfNilChannel
      | Some r \<Rightarrow>
          (case store r of
             ChanClosed \<Rightarrow> Inl CloseOfClosedChannel
           | ChanOpen \<Rightarrow> Inr (store(r := ChanClosed))))"

text \<open>\<^verbatim>\<open>newRPCConn\<close>: three fresh channels; \<open>r\<close> is the reference of the new close channel.\<close>

definition newRPCConn :: "chan_ref \<Rightarrow> chan_store \<Rightarrow> chan_store \<times> rpcConn" where
  "newRPCConn r store =
     (store(r := ChanOpen), \<lparr>readChan = [], writeChan = [], closeChan = Some r\<rparr>)"

text \<open>
  \<^verbatim>\<open>Read\<close> receives one message from the read channel and copies it into \<open>p\<close>. With
  no message pending the receive blocks: the call does not return, which is \<open>None\<close>.
  The result is the number of bytes copied, the error, the buffer and the connection.
\<close>

definition rpcConn_Read ::
  "rpcConn \<Rightarrow> byte list \<Rightarrow> (nat \<times> go_error option \<times> byte list \<times> rpcConn) option" where
  "rpcConn_Read conn p =
     (case readChan conn of
        [] \<Rightarrow> None
      | message # pending \<Rightarrow>
          (let (n, p') = go_copy p message
           in Some (n, None, p', conn\<lparr>readChan := pending\<rparr>)))"

text \<open>\<^verbatim>\<open>Write\<close> sends \<open>p\<close> on the write channel and reports its whole length.\<close>

definition rpcConn_Write :: "rpcConn \<Rightarrow> byte list \<Rightarrow> nat \<times> go_error option \<times> rpcConn" where
  "rpcConn_Write conn p = (length p, None, conn\<lparr>writeChan := writeChan conn @ [p]\<rparr>)"

text \<open>
  \<^verbatim>\<open>Close\<close> closes the close channel unless the field is nil, then sets the field to
  nil; it returns a nil error.
\<close>

definition rpcConn_Close ::
  "chan_store \<Rightarrow> rpcConn \<Rightarrow> panic + (go_error option \<times> chan_store \<times> rpcConn)" where
  "rpcConn_Close store conn =
     (if closeChan conn \<noteq> None then
        (case go_close store (closeChan conn) of
           Inl pnc \<Rightarrow> Inl pnc
         | Inr store' \<Rightarrow> Inr (None, store', conn\<lparr>closeChan := None\<rparr>))
      else Inr (None, store, conn))"

section \<open>Package rpcclient: the RPCClient\<close>

text \<open>
  Package \<^verbatim>\<open>status\<close> is not among the sources. The events and statuses the code
  names are distinct constructors; any further value of the package is kept under its name.
\<close>

datatype Event =
    EventStatusChange
  | EventSampleInfoChange
  | EventVerificationProgressChange
  | EventDisconnect
  | EventNamed string

datatype Status =
    StatusConnected
  | StatusInitialized
  | StatusNamed string

text \<open>
  The opcode constants of package \<^verbatim>\<open>rpcmessages\<close> are not among the sources either;
  they are Go strings and are taken as parameters. The three of them label the cases of one
  \<^verbatim>\<open>switch\<close>, which Go compiles only when the constants differ.
\<close>

record opcodes =
  OpUCanHasSampleInfo :: "byte list"
  OpUCanHasVerificationProgress :: "byte list"
  OpRPCCall :: "byte list"

definition opcodes_distinct :: "opcodes \<Rightarrow> bool" where
  "opcodes_distinct ops =
     distinct [OpUCanHasSampleInfo ops, OpUCanHasVerificationProgress ops, OpRPCCall ops]"

datatype log_entry = LogInfo string | LogError string "go_error option"

text \<open>The client of \<^verbatim>\<open>net/rpc\<close> that \<^verbatim>\<open>rpc.NewClient\<close> builds over the rpcConnection.\<close>

datatype rpc_Client = rpc_NewClient

text \<open>
  The struct \<^verbatim>\<open>RPCClient\<close>. The logger is the list of lines written through it, the
  callback \<^verbatim>\<open>onEvent\<close> is the list of events it was called with (oldest first), and a
  nil \<^verbatim>\<open>client\<close> is \<open>None\<close>. The callbacks are the method values that
  \<^verbatim>\<open>NewBitBoxBase\<close> passes, so calling one never fails. The cipher states and the
  callbacks \<^verbatim>\<open>onChangeStatus\<close> and \<^verbatim>\<open>onUnregister\<close> are used by the handshake
  and the websocket loops only and are left out.
\<close>

record RPCClient =
  log :: "log_entry list"
  address :: string
  bitboxBaseConfigDir :: string
  bitboxBaseNoiseStaticPubkey :: "byte list"
  channelHash :: string
  channelHashAppVerified :: bool
  channelHashBitBoxBaseVerified :: bool
  onEvent :: "Event list"
  client :: "rpc_Client option"
  rpcConnection :: rpcConn

definition log_Info :: "string \<Rightarrow> 'a RPCClient_scheme \<Rightarrow> 'a RPCClient_scheme" where
  "log_Info msg c = c\<lparr>log := log c @ [LogInfo msg]\<rparr>"

definition log_Error ::
  "string \<Rightarrow> go_error option \<Rightarrow> 'a RPCClient_scheme \<Rightarrow> 'a RPCClient_scheme" where
  "log_Error msg err c = c\<lparr>log := log c @ [LogError msg err]\<rparr>"

definition call_onEvent :: "Event \<Rightarrow> 'a RPCClient_scheme \<Rightarrow> 'a RPCClient_scheme" where
  "call_onEvent e c = c\<lparr>onEvent := onEvent c @ [e]\<rparr>"

text \<open>
  What lies beyond the process: the answer to an HTTP GET (an error, or the status code of
  the response) and to a websocket dial, by URL.
\<close>

datatype websocket = Websocket string

record network =
  http_Get :: "string \<Rightarrow> go_error + nat"
  websocket_Dial :: "string \<Rightarrow> go_error + websocket"

text \<open>The steps of connecting that reach beyond the struct, recorded in the order taken.\<close>

datatype action =
    HttpGet string
  | WebsocketDial string
  | InitializeNoise
  | RpcNewClient
  | RunWebsocket

definition StatusOK :: nat where
  "StatusOK = 200"

text \<open>\<^verbatim>\<open>Ping\<close>: a GET of the root handler; true when the response has status 200.\<close>

definition RPCClient_Ping ::
  "network \<Rightarrow> 'a RPCClient_scheme \<Rightarrow>
     (bool \<times> go_error option) \<times> 'a RPCClient_scheme \<times> action list" where
  "RPCClient_Ping net c =
     (let url = ''http://'' @ address c @ ''/'' in
      case http_Get net url of
        Inl err \<Rightarrow>
          ((False, Some err), log_Error ''No response from middleware'' (Some err) c,
           [HttpGet url])
      | Inr statusCode \<Rightarrow>
          if statusCode \<noteq> StatusOK then
            ((False, None),
             log_Error ''Received http status code from middleware other than 200'' None c,
             [HttpGet url])
          else ((True, None), c, [HttpGet url]))"

text \<open>
  \<^verbatim>\<open>NewRPCClient\<close> builds the struct over a new rpcConn and pings; it returns the
  pointer to the struct, nil (\<open>None\<close>) when the ping did not succeed, and the ping's error.
\<close>

definition NewRPCClient ::
  "network \<Rightarrow> chan_ref \<Rightarrow> chan_store \<Rightarrow> string \<Rightarrow> string \<Rightarrow>
     (RPCClient option \<times> go_error option) \<times> chan_store \<times> action list" where
  "NewRPCClient net r store addr configDir =
     (let (store', conn) = newRPCConn r store;
          rpcClient = \<lparr>log = [], address = addr, bitboxBaseConfigDir = configDir,
            bitboxBaseNoiseStaticPubkey = [], channelHash = [],
            channelHashAppVerified = False, channelHashBitBoxBaseVerified = False,
            onEvent = [], client = None, rpcConnection = conn\<rparr>;
          ((success, err), rpcClient', acts) = RPCClient_Ping net rpcClient
      in if \<not> success then ((None, err), store', acts)
         else ((Some rpcClient', None), store', acts))"

text \<open>
  \<^verbatim>\<open>Connect\<close>. The noise handshake \<^verbatim>\<open>initializeNoise\<close> is a parameter: given the
  websocket it returns an error or nil and may set fields of the struct.
  \<^verbatim>\<open>runWebsocket\<close> starts the goroutines of the websocket and returns.
\<close>

definition RPCClient_Connect ::
  "network \<Rightarrow> (websocket \<Rightarrow> 'a RPCClient_scheme \<Rightarrow> go_error option \<times> 'a RPCClient_scheme) \<Rightarrow>
     'a RPCClient_scheme \<Rightarrow> go_error option \<times> 'a RPCClient_scheme \<times> action list" where
  "RPCClient_Connect net initializeNoise c =
     (let c0 = log_Info ''connecting to base websocket'' c;
          ((success, err), c1, ping) = RPCClient_Ping net c0
      in if \<not> success then (err, c1, ping)
         else
           (let url = ''ws://'' @ address c1 @ ''/ws'' in
            case websocket_Dial net url of
              Inl err \<Rightarrow>
                (Some (ErrpNew ''rpcClient: failed to create new websocket client''), c1,
                 ping @ [WebsocketDial url])
            | Inr ws \<Rightarrow>
                (case initializeNoise ws c1 of
                   (Some err, c2) \<Rightarrow> (Some err, c2, ping @ [WebsocketDial url, InitializeNoise])
                 | (None, c2) \<Rightarrow>
                     (None, c2\<lparr>client := Some rpc_NewClient\<rparr>,
                      ping @ [WebsocketDial url, InitializeNoise, RpcNewClient, RunWebsocket]))))"

text \<open>
  \<^verbatim>\<open>parseMessage\<close>, in a run where the send on the read channel is taken: a receiver
  (the input goroutine of the rpc client, in \<^verbatim>\<open>Read\<close>) is waiting, so the send
  returns and the message joins those sent and not yet read. This definition says what a
  message dispatches. Whether the call returns at all is \<open>parseMessage_blocking\<close> below.
\<close>

definition parseMessage ::
  "opcodes \<Rightarrow> byte list \<Rightarrow> 'a RPCClient_scheme \<Rightarrow> panic + 'a RPCClient_scheme" where
  "parseMessage ops message c =
     (if length message = 0 then Inr (log_Error ''Received empty message, dropping.'' None c)
      else
        (case go_index message 0 of
           Inl pnc \<Rightarrow> Inl pnc
         | Inr b \<Rightarrow>
             (let opCode = string_of_byte b in
              if opCode = OpUCanHasSampleInfo ops then
                Inr (call_onEvent EventSampleInfoChange c)
              else if opCode = OpUCanHasVerificationProgress ops then
                Inr (call_onEvent EventVerificationProgressChange c)
              else if opCode = OpRPCCall ops then
                (case go_slice_from message 1 of
                   Inl pnc \<Rightarrow> Inl pnc
                 | Inr message' \<Rightarrow>
                     Inr (c\<lparr>rpcConnection := (rpcConnection c)
                            \<lparr>readChan := readChan (rpcConnection c) @ [message']\<rparr>\<rparr>))
              else Inr (log_Error ''Received message without opCode, dropping.'' None c))))"

text \<open>
  \<^verbatim>\<open>ch <- message\<close> on an unbuffered channel returns only when a receiver takes the
  message; with no receiver the sender blocks for good, which is \<open>None\<close>. Whether a
  receiver takes it is the environment's: \<open>receiver\<close>.
\<close>

definition go_send :: "bool \<Rightarrow> 'm list \<Rightarrow> 'm \<Rightarrow> 'm list option" where
  "go_send receiver pending message = (if receiver then Some (pending @ [message]) else None)"

text \<open>
  \<^verbatim>\<open>parseMessage\<close> with the send as the channel has it. The read channel is made
  without a buffer (\<^verbatim>\<open>make(chan []byte)\<close>), and the send is not guarded by a
  \<^verbatim>\<open>select\<close>, so on an RPC frame the call returns exactly when a receiver takes the
  message. A call that does not return is \<open>None\<close>.
\<close>

definition parseMessage_blocking ::
  "opcodes \<Rightarrow> bool \<Rightarrow> byte list \<Rightarrow> 'a RPCClient_scheme \<Rightarrow>
     (panic + 'a RPCClient_scheme) option" where
  "parseMessage_blocking ops receiver message c =
     (if length message = 0 then
        Some (Inr (log_Error ''Received empty message, dropping.'' None c))
      else
        (case go_index message 0 of
           Inl pnc \<Rightarrow> Some (Inl pnc)
         | Inr b \<Rightarrow>
             (let opCode = string_of_byte b in
              if opCode = OpUCanHasSampleInfo ops then
                Some (Inr (call_onEvent EventSampleInfoChange c))
              else if opCode = OpUCanHasVerificationProgress ops then
                Some (Inr (call_onEvent EventVerificationProgressChange c))
              else if opCode = OpRPCCall ops then
                (case go_slice_from message 1 of
                   Inl pnc \<Rightarrow> Some (Inl pnc)
                 | Inr message' \<Rightarrow>
                     (case go_send receiver (readChan (rpcConnection c)) message' of
                        None \<Rightarrow> None
                      | Some pending \<Rightarrow>
                          Some (Inr (c\<lparr>rpcConnection := (rpcConnection c)
                                      \<lparr>readChan := pending\<rparr>\<rparr>))))
              else Some (Inr (log_Error ''Received message without opCode, dropping.'' None c)))))"

text \<open>
  Modelled from the spec: the read loop of \<^verbatim>\<open>runWebsocket\<close>, which is not among the
  sources. Section 4.3: each decrypted inbound frame is classified by its opcode, in arrival
  order, for as long as the connection stands. Here the frames are the decrypted messages
  and the loop ends with them or with a panic. It is the loop in a run where every RPC
  frame finds its receiver.
\<close>

fun readLoop ::
  "opcodes \<Rightarrow> byte list list \<Rightarrow> 'a RPCClient_scheme \<Rightarrow> panic + 'a RPCClient_scheme" where
  "readLoop ops [] c = Inr c"
| "readLoop ops (message # messages) c =
     (case parseMessage ops message c of
        Inl pnc \<Rightarrow> Inl pnc
      | Inr c' \<Rightarrow> readLoop ops messages c')"

text \<open>What the frames handled so far have dispatched: the events fired and the rpcConnection.\<close>

definition dispatched :: "'a RPCClient_scheme \<Rightarrow> Event list \<times> rpcConn" where
  "dispatched c = (onEvent c, rpcConnection c)"

text \<open>
  The synchronous calls. What \<^verbatim>\<open>client.Call(method, args, &reply)\<close> yields is the
  remote party's: an error, or the decoded reply. The reply types are declared in package
  \<^verbatim>\<open>rpcmessages\<close>, outside the sources; the fields are those the code reads.
\<close>

datatype rpc_args = DummyArg | SetHostnameArgs string

record GetHostnameResponse =
  ErrorResponse :: ErrorResponse
  Hostname :: string

definition GetHostnameResponse_zero :: GetHostnameResponse where
  "GetHostnameResponse_zero = \<lparr>ErrorResponse = ErrorResponse_zero, Hostname = []\<rparr>"

record rpc_server =
  Call_ErrorResponse :: "string \<Rightarrow> rpc_args \<Rightarrow> go_error + ErrorResponse"
  Call_GetHostnameResponse :: "string \<Rightarrow> rpc_args \<Rightarrow> go_error + GetHostnameResponse"

definition RPCClient_ResyncBitcoin ::
  "rpc_server \<Rightarrow> 'a RPCClient_scheme \<Rightarrow> (ErrorResponse \<times> go_error option) \<times> 'a RPCClient_scheme" where
  "RPCClient_ResyncBitcoin srv c =
     (let c' = log_Info ''Executing ResyncBitcoin rpc call'' c in
      case Call_ErrorResponse srv ''RPCServer.ResyncBitcoin'' DummyArg of
        Inl err \<Rightarrow> ((ErrorResponse_zero, Some (ErrpWithStack err)), c')
      | Inr reply \<Rightarrow> ((reply, None), c'))"

definition RPCClient_ReindexBitcoin ::
  "rpc_server \<Rightarrow> 'a RPCClient_scheme \<Rightarrow> (ErrorResponse \<times> go_error option) \<times> 'a RPCClient_scheme" where
  "RPCClient_ReindexBitcoin srv c =
     (let c' = log_Info ''Executing ReindexBitcoin rpc call'' c in
      case Call_ErrorResponse srv ''RPCServer.ReindexBitcoin'' DummyArg of
        Inl err \<Rightarrow> ((ErrorResponse_zero, Some (ErrpWithStack err)), c')
      | Inr reply \<Rightarrow> ((reply, None), c'))"

definition RPCClient_SetHostname ::
  "rpc_server \<Rightarrow> rpc_args \<Rightarrow> 'a RPCClient_scheme \<Rightarrow>
     (ErrorResponse \<times> go_error option) \<times> 'a RPCClient_scheme" where
  "RPCClient_SetHostname srv args c =
     (let c' = log_Info ''Executing SetHostname rpc call'' c in
      case Call_ErrorResponse srv ''RPCServer.SetHostname'' args of
        Inl err \<Rightarrow> ((ErrorResponse_zero, Some (ErrpWithStack err)), c')
      | Inr reply \<Rightarrow> ((reply, None), c'))"

definition RPCClient_GetHostname ::
  "rpc_server \<Rightarrow> 'a RPCClient_scheme \<Rightarrow>
     (GetHostnameResponse \<times> go_error option) \<times> 'a RPCClient_scheme" where
  "RPCClient_GetHostname srv c =
     (let c' = log_Info ''Executing GetHostname rpc call'' c in
      case Call_GetHostnameResponse srv ''RPCServer.GetHostname'' DummyArg of
        Inl err \<Rightarrow> ((GetHostnameResponse_zero, Some (ErrpWithStack err)), c')
      | Inr reply \<Rightarrow> ((reply, None), c'))"

definition RPCClient_MountFlashdrive ::
  "rpc_server \<Rightarrow> 'a RPCClient_scheme \<Rightarrow> (ErrorResponse \<times> go_error option) \<times> 'a RPCClient_scheme" where
  "RPCClient_MountFlashdrive srv c =
     (let c' = log_Info ''Executing MountFlashdrive rpc call'' c in
      case Call_ErrorResponse srv ''RPCServer.MountFlashdrive'' DummyArg of
        Inl err \<Rightarrow> ((ErrorResponse_zero, Some (ErrpWithStack err)), c')
      | Inr reply \<Rightarrow> ((reply, None), c'))"

section \<open>Package bitboxbase: the BitBoxBase\<close>

text \<open>
  The struct \<^verbatim>\<open>BitBoxBase\<close>. The embedded \<^verbatim>\<open>observable.Implementation\<close> is the
  list of events notified to the observers, the logger the lines written. Every operation
  below returns before it touches \<^verbatim>\<open>rpcClient\<close> when the base is not active, and
  \<^verbatim>\<open>ConnectRPCClient\<close> sets \<^verbatim>\<open>active\<close> only after a call went through that
  client, so the field holds a client wherever it is read.
\<close>

datatype observable_action = Replace

record observable_Event =
  Subject :: string
  Action :: observable_action
  Object :: Event

record BitBoxBase =
  notified :: "observable_Event list"
  bitboxBaseID :: string
  base_address :: string
  rpcClient :: RPCClient
  electrsRPCPort :: string
  network :: string
  base_log :: "log_entry list"
  base_bitboxBaseConfigDir :: string
  status :: Status
  active :: bool

definition base_Println :: "string \<Rightarrow> BitBoxBase \<Rightarrow> BitBoxBase" where
  "base_Println msg base = base\<lparr>base_log := base_log base @ [LogInfo msg]\<rparr>"

definition fireEvent :: "Event \<Rightarrow> BitBoxBase \<Rightarrow> BitBoxBase" where
  "fireEvent event base =
     base\<lparr>notified := notified base @
       [\<lparr>Subject = ''/bitboxbases/'' @ bitboxBaseID base @ ''/event'', Action = Replace,
         Object = event\<rparr>]\<rparr>"

definition changeStatus :: "Status \<Rightarrow> BitBoxBase \<Rightarrow> BitBoxBase" where
  "changeStatus st base = fireEvent EventStatusChange (base\<lparr>status := st\<rparr>)"

definition BitBoxBase_Status :: "BitBoxBase \<Rightarrow> Status" where
  "BitBoxBase_Status base = status base"

definition BitBoxBase_ReindexBitcoin :: "rpc_server \<Rightarrow> BitBoxBase \<Rightarrow> go_error option \<times> BitBoxBase" where
  "BitBoxBase_ReindexBitcoin srv base =
     (if \<not> active base then (Some (ErrpNew ''Attempted a call to non-active base''), base)
      else
        (let base1 = base_Println ''bitboxbase is making a ReindexBitcoin call'' base;
             ((reply, err), c) = RPCClient_ReindexBitcoin srv (rpcClient base1);
             base2 = changeStatus StatusInitialized (base1\<lparr>rpcClient := c\<rparr>)
         in case err of
              Some e \<Rightarrow> (Some e, base2)
            | None \<Rightarrow>
                if \<not> Success reply then (Some (ReplyError reply), base2) else (None, base2)))"

definition BitBoxBase_ResyncBitcoin :: "rpc_server \<Rightarrow> BitBoxBase \<Rightarrow> go_error option \<times> BitBoxBase" where
  "BitBoxBase_ResyncBitcoin srv base =
     (if \<not> active base then (Some (ErrpNew ''Attempted a call to non-active base''), base)
      else
        (let base1 = base_Println ''bitboxbase is making a ResyncBitcoin call'' base;
             ((reply, err), c) = RPCClient_ResyncBitcoin srv (rpcClient base1);
             base2 = changeStatus StatusInitialized (base1\<lparr>rpcClient := c\<rparr>)
         in case err of
              Some e \<Rightarrow> (Some e, base2)
            | None \<Rightarrow>
                if \<not> Success reply then (Some (ReplyError reply), base2) else (None, base2)))"

definition BitBoxBase_GetHostname ::
  "rpc_server \<Rightarrow> BitBoxBase \<Rightarrow> (string \<times> go_error option) \<times> BitBoxBase" where
  "BitBoxBase_GetHostname srv base =
     (if \<not> active base then (([], Some (ErrpNew ''Attempted a call to non-active base'')), base)
      else
        (let base1 = base_Println ''bitboxbase is making a GetHostname call'' base;
             ((reply, err), c) = RPCClient_GetHostname srv (rpcClient base1);
             base2 = base1\<lparr>rpcClient := c\<rparr>
         in case err of
              Some e \<Rightarrow> (([], Some e), base2)
            | None \<Rightarrow>
                if \<not> Success (ErrorResponse reply)
                then (([], Some (ReplyError (ErrorResponse reply))), base2)
                else ((Hostname reply, None), base2)))"

definition BitBoxBase_SetHostname ::
  "rpc_server \<Rightarrow> string \<Rightarrow> BitBoxBase \<Rightarrow> go_error option \<times> BitBoxBase" where
  "BitBoxBase_SetHostname srv hostname base =
     (if \<not> active base then (Some (ErrpNew ''Attempted a call to non-active base''), base)
      else
        (let base1 = base_Println ''bitboxbase is making a SetHostname call'' base;
             args = SetHostnameArgs hostname;
             ((reply, err), c) = RPCClient_SetHostname srv args (rpcClient base1);
             base2 = base1\<lparr>rpcClient := c\<rparr>
         in case err of
              Some e \<Rightarrow> (Some e, base2)
            | None \<Rightarrow>
                if \<not> Success reply then (Some (ReplyError reply), base2) else (None, base2)))"

definition BitBoxBase_MountFlashdrive :: "rpc_server \<Rightarrow> BitBoxBase \<Rightarrow> go_error option \<times> BitBoxBase" where
  "BitBoxBase_MountFlashdrive srv base =
     (if \<not> active base then (Some (ErrpNew ''Attempted a call to non-active base''), base)
      else
        (let base1 = base_Println ''bitboxbase is making a MountFlashdrive call'' base;
             ((reply, err), c) = RPCClient_MountFlashdrive srv (rpcClient base1);
             base2 = base1\<lparr>rpcClient := c\<rparr>
         in case err of
              Some e \<Rightarrow> (Some e, base2)
            | None \<Rightarrow>
                if \<not> Success reply then (Some (ReplyError reply), base2) else (None, base2)))"

section \<open>The pairing store and the noise handshake\<close>

text \<open>
  Modelled from the spec: the pairing store and \<^verbatim>\<open>initializeNoise\<close>, which
  \<^verbatim>\<open>Connect\<close> calls and which are not among the sources. Sections 3 and 4.2: the store
  maps a remote identity to the remote long-term public key, with the operations
  \<^verbatim>\<open>Lookup\<close>, \<^verbatim>\<open>Pin\<close> and \<^verbatim>\<open>Remove\<close>. The first successful handshake
  with an unknown identity pins the key it negotiated; a later handshake that negotiates a
  key other than the pinned one ends in a security error and repairs nothing. The identity
  of the appliance is its address. The store is persisted under the configuration directory
  and is carried as an extension of the struct.
\<close>

type_synonym RemoteIdentity = string

type_synonym PinnedRemoteKey = "RemoteIdentity \<rightharpoonup> byte list"

definition Lookup :: "PinnedRemoteKey \<Rightarrow> RemoteIdentity \<Rightarrow> byte list option" where
  "Lookup store identity = store identity"

definition Pin :: "PinnedRemoteKey \<Rightarrow> RemoteIdentity \<Rightarrow> byte list \<Rightarrow> PinnedRemoteKey" where
  "Pin store identity pubkey = store(identity \<mapsto> pubkey)"

definition Remove :: "PinnedRemoteKey \<Rightarrow> RemoteIdentity \<Rightarrow> PinnedRemoteKey" where
  "Remove store identity = store(identity := None)"

record paired_RPCClient = RPCClient +
  pinnedRemoteKey :: PinnedRemoteKey

text \<open>
  Modelled from the spec: \<open>peer\<close> is the outcome of the Diffie-Hellman exchange on the
  websocket, an error or the remote static public key it negotiated.
\<close>

definition initializeNoise ::
  "(websocket \<Rightarrow> go_error + byte list) \<Rightarrow> websocket \<Rightarrow> paired_RPCClient \<Rightarrow>
     go_error option \<times> paired_RPCClient" where
  "initializeNoise peer ws c =
     (case peer ws of
        Inl err \<Rightarrow> (Some HandshakeFailed, c)
      | Inr pubkey \<Rightarrow>
          (case Lookup (pinnedRemoteKey c) (address c) of
             None \<Rightarrow>
               (None, c\<lparr>bitboxBaseNoiseStaticPubkey := pubkey,
                         pinnedRemoteKey := Pin (pinnedRemoteKey c) (address c) pubkey\<rparr>)
           | Some pinned \<Rightarrow>
               if pubkey = pinned then (None, c\<lparr>bitboxBaseNoiseStaticPubkey := pubkey\<rparr>)
               else (Some PinMismatch, c)))"

text \<open>
  Modelled from the spec: the explicit re-pairing by the user removes the pinned key of the
  appliance, so that the next handshake pins anew. What the user does over time is a
  sequence of connection attempts, each against some network and some peer, and re-pairings.
\<close>

definition rePair :: "paired_RPCClient \<Rightarrow> paired_RPCClient" where
  "rePair c = c\<lparr>pinnedRemoteKey := Remove (pinnedRemoteKey c) (address c)\<rparr>"

datatype user_action =
    ConnectTo network "websocket \<Rightarrow> go_error + byte list"
  | RePair

fun run_actions :: "user_action list \<Rightarrow> paired_RPCClient \<Rightarrow> paired_RPCClient" where
  "run_actions [] c = c"
| "run_actions (ConnectTo net peer # rest) c =
     run_actions rest (fst (snd (RPCClient_Connect net (initializeNoise peer) c)))"
| "run_actions (RePair # rest) c = run_actions rest (rePair c)"

section \<open>Concrete inputs\<close>

text \<open>
  A network whose root handler answers with the given status code and whose websocket
  endpoint accepts the dial, and the struct as \<^verbatim>\<open>NewRPCClient\<close> fills it for an
  address.
\<close>

definition network_answering :: "nat \<Rightarrow> network" where
  "network_answering code = \<lparr>http_Get = (\<lambda>_. Inr code), websocket_Dial = (\<lambda>u. Inr (Websocket u))\<rparr>"

definition fresh_client :: "string \<Rightarrow> RPCClient" where
  "fresh_client addr =
     \<lparr>log = [], address = addr, bitboxBaseConfigDir = ''/config'',
      bitboxBaseNoiseStaticPubkey = [], channelHash = [],
      channelHashAppVerified = False, channelHashBitBoxBaseVerified = False,
      onEvent = [], client = None,
      rpcConnection = \<lparr>readChan = [], writeChan = [], closeChan = Some 0\<rparr>\<rparr>"

text \<open>Three one-letter opcodes, as an instance of the parameter.\<close>

definition letter_opcodes :: opcodes where
  "letter_opcodes =
     \<lparr>OpUCanHasSampleInfo = [0x64], OpUCanHasVerificationProgress = [0x76], OpRPCCall = [0x72]\<rparr>"

text \<open>
  A base right after \<^verbatim>\<open>ConnectRPCClient\<close>: active, with the status
  \<^verbatim>\<open>NewBitBoxBase\<close> gave it. Three remote parties: one whose calls fail in the
  transport, one that answers every call with \<^verbatim>\<open>Success\<close> false, one that answers
  with success.
\<close>

definition connected_base :: BitBoxBase where
  "connected_base =
     \<lparr>notified = [], bitboxBaseID = ''192.168.0.2'', base_address = ''192.168.0.2'',
      rpcClient = (fresh_client ''192.168.0.2:8845'')\<lparr>client := Some rpc_NewClient\<rparr>,
      electrsRPCPort = ''51002'', network = ''testnet'', base_log = [],
      base_bitboxBaseConfigDir = ''/config'', status = StatusConnected, active = True\<rparr>"

definition server_shut_down :: rpc_server where
  "server_shut_down =
     \<lparr>Call_ErrorResponse = (\<lambda>_ _. Inl (LibraryError ''connection is shut down'')),
      Call_GetHostnameResponse = (\<lambda>_ _. Inl (LibraryError ''connection is shut down''))\<rparr>"

definition server_refusing :: rpc_server where
  "server_refusing =
     \<lparr>Call_ErrorResponse = (\<lambda>_ _. Inr \<lparr>Success = False, Detail = ''script failed''\<rparr>),
      Call_GetHostnameResponse = (\<lambda>_ _. Inr
        \<lparr>ErrorResponse = \<lparr>Success = False, Detail = ''script failed''\<rparr>, Hostname = []\<rparr>)\<rparr>"

definition server_answering :: rpc_server where
  "server_answering =
     \<lparr>Call_ErrorResponse = (\<lambda>_ _. Inr \<lparr>Success = True, Detail = []\<rparr>),
      Call_GetHostnameResponse = (\<lambda>_ _. Inr
        \<lparr>ErrorResponse = \<lparr>Success = True, Detail = []\<rparr>, Hostname = ''bitbox-base''\<rparr>)\<rparr>"

text \<open>A client that has pinned the key \<open>[1, 2, 3]\<close> for its appliance.\<close>

definition paired_client :: paired_RPCClient where
  "paired_client =
     \<lparr>log = [], address = ''192.168.0.2:8845'', bitboxBaseConfigDir = ''/config'',
      bitboxBaseNoiseStaticPubkey = [], channelHash = [],
      channelHashAppVerified = False, channelHashBitBoxBaseVerified = False,
      onEvent = [], client = None,
      rpcConnection = \<lparr>readChan = [], writeChan = [], closeChan = Some 0\<rparr>,
      pinnedRemoteKey = Pin Map.empty ''192.168.0.2:8845'' [1, 2, 3]\<rparr>"

section \<open>Properties of rpcConn\<close>

lemma go_copy_length: "fst (go_copy dst src) = min (length dst) (length src)"
  by (simp add: go_copy_def Let_def)

lemma go_copy_buffer_length: "length (snd (go_copy dst src)) = length dst"
  by (simp add: go_copy_def Let_def)

text \<open>
  C10. \<^verbatim>\<open>rpcConn.Read\<close> never returns an error. For every buffer \<open>p\<close> and every
  message received from the read channel it returns \<open>min (len p) (len message)\<close>, a nil
  error and the buffer whose first \<open>n\<close> bytes are the first \<open>n\<close> bytes of the message;
  the rest of the message is kept nowhere: the read channel holds only the messages that
  were pending behind it, the other fields are untouched.
\<close>

theorem rpcConn_Read_truncates:
  "rpcConn_Read (conn\<lparr>readChan := message # pending\<rparr>) p =
     Some (min (length p) (length message), None,
           take (min (length p) (length message)) message
             @ drop (min (length p) (length message)) p,
           conn\<lparr>readChan := pending\<rparr>)
   \<and> (rpcConn_Read conn p = None
        \<or> (\<exists>n p' conn'. rpcConn_Read conn p = Some (n, None, p', conn')))"
  by (auto simp: rpcConn_Read_def go_copy_def Let_def split: list.splits)

theorem rpcConn_Read_truncates_witness:
  "rpcConn_Read \<lparr>readChan = [[1, 2, 3, 4, 5]], writeChan = [], closeChan = None\<rparr> [0, 0]
     = Some (2, None, [1, 2], \<lparr>readChan = [], writeChan = [], closeChan = None\<rparr>)"
  using rpcConn_Read_truncates
    [where conn = "\<lparr>readChan = [], writeChan = [], closeChan = None\<rparr>"
       and message = "[1, 2, 3, 4, 5]" and pending = "[]" and p = "[0, 0]"]
  by simp

text \<open>
  C5. Closing is idempotent. After any \<^verbatim>\<open>Close\<close> that returned, a second
  \<^verbatim>\<open>Close\<close> returns a nil error without panicking and changes neither the store of
  channels (no channel is closed again) nor the connection.
\<close>

theorem rpcConn_Close_idempotent:
  "rpcConn_Close store conn = Inr (err, store', conn') \<Longrightarrow>
     err = None \<and> closeChan conn' = None
     \<and> rpcConn_Close store' conn' = Inr (None, store', conn')"
  by (auto simp: rpcConn_Close_def split: if_splits sum.splits)

theorem rpcConn_Close_idempotent_witness:
  "rpcConn_Close ((\<lambda>_. ChanClosed)(0 := ChanOpen)) \<lparr>readChan = [], writeChan = [], closeChan = Some 0\<rparr>
     = Inr (None, (\<lambda>_. ChanClosed), \<lparr>readChan = [], writeChan = [], closeChan = None\<rparr>)
   \<and> rpcConn_Close (\<lambda>_. ChanClosed) \<lparr>readChan = [], writeChan = [], closeChan = None\<rparr>
     = Inr (None, (\<lambda>_. ChanClosed), \<lparr>readChan = [], writeChan = [], closeChan = None\<rparr>)"
proof -
  have first: "rpcConn_Close ((\<lambda>_. ChanClosed)(0 := ChanOpen))
      \<lparr>readChan = [], writeChan = [], closeChan = Some 0\<rparr>
     = Inr (None, (\<lambda>_. ChanClosed), \<lparr>readChan = [], writeChan = [], closeChan = None\<rparr>)"
    by (simp add: rpcConn_Close_def go_close_def fun_eq_iff)
  from rpcConn_Close_idempotent [OF first] first show ?thesis by simp
qed

lemma newRPCConn_Close:
  "newRPCConn r store = (store', conn) \<Longrightarrow>
     rpcConn_Close store' conn = Inr (None, store'(r := ChanClosed), conn\<lparr>closeChan := None\<rparr>)"
  by (auto simp: newRPCConn_def rpcConn_Close_def go_close_def)

section \<open>Properties of the RPCClient\<close>

lemma Ping_actions:
  "snd (snd (RPCClient_Ping net c)) = [HttpGet (''http://'' @ address c @ ''/'')]"
  by (simp add: RPCClient_Ping_def Let_def split: sum.splits)

lemma Ping_success:
  "fst (fst (RPCClient_Ping net c)) = (http_Get net (''http://'' @ address c @ ''/'') = Inr StatusOK)"
  by (auto simp: RPCClient_Ping_def Let_def split: sum.splits)

lemma Ping_ok:
  "http_Get net (''http://'' @ address c @ ''/'') = Inr StatusOK \<Longrightarrow>
     RPCClient_Ping net c = ((True, None), c, [HttpGet (''http://'' @ address c @ ''/'')])"
  by (simp add: RPCClient_Ping_def Let_def)

lemma Ping_transport_error:
  "http_Get net (''http://'' @ address c @ ''/'') = Inl e \<Longrightarrow>
     fst (RPCClient_Ping net c) = (False, Some e)"
  by (simp add: RPCClient_Ping_def Let_def)

text \<open>
  C8. When the GET of the liveness probe is answered with a status code other than 200,
  \<^verbatim>\<open>Ping\<close> returns false and a nil error, and \<^verbatim>\<open>NewRPCClient\<close> returns a nil
  client and a nil error.
\<close>

theorem Ping_non200_nil_nil:
  "http_Get net (''http://'' @ addr @ ''/'') = Inr code \<Longrightarrow> code \<noteq> StatusOK \<Longrightarrow>
     fst (RPCClient_Ping net (c\<lparr>address := addr\<rparr>)) = (False, None)
     \<and> fst (NewRPCClient net r store addr configDir) = (None, None)"
  by (simp add: RPCClient_Ping_def NewRPCClient_def newRPCConn_def Let_def)

theorem Ping_non200_nil_nil_witness:
  "fst (RPCClient_Ping (network_answering 404) (fresh_client ''192.168.0.2:8845'')) = (False, None)
   \<and> fst (NewRPCClient (network_answering 404) 0 (\<lambda>_. ChanClosed) ''192.168.0.2:8845'' ''/config'')
       = (None, None)"
proof -
  have get: "http_Get (network_answering 404) (''http://'' @ ''192.168.0.2:8845'' @ ''/'') = Inr 404"
    by (simp add: network_answering_def)
  have code: "(404::nat) \<noteq> StatusOK"
    by (simp add: StatusOK_def)
  have same: "(fresh_client ''192.168.0.2:8845'')\<lparr>address := ''192.168.0.2:8845''\<rparr>
      = fresh_client ''192.168.0.2:8845''"
    by (simp add: fresh_client_def)
  from Ping_non200_nil_nil [OF get code, where c = "fresh_client ''192.168.0.2:8845''"
      and r = 0 and store = "\<lambda>_. ChanClosed" and configDir = "''/config''"]
  show ?thesis by (simp only: same)
qed

lemma Connect_transport_error:
  "http_Get net (''http://'' @ address c @ ''/'') = Inl e \<Longrightarrow>
     fst (RPCClient_Connect net noise c) = Some e
     \<and> snd (snd (RPCClient_Connect net noise c)) = [HttpGet (''http://'' @ address c @ ''/'')]"
  by (simp add: RPCClient_Connect_def RPCClient_Ping_def log_Info_def Let_def)

text \<open>
  C2, evaluated where it fails. The root handler answers the probe with status 404:
  \<^verbatim>\<open>Ping\<close> hands back false with a nil error, and \<^verbatim>\<open>Connect\<close> returns that nil
  error to its caller. Only the GET has happened; the client field is still nil.
\<close>

theorem Connect_non200_returns_nil:
  "RPCClient_Connect (network_answering 404) noise (fresh_client ''192.168.0.2:8845'') =
     (None,
      (fresh_client ''192.168.0.2:8845'')
        \<lparr>log := [LogInfo ''connecting to base websocket'',
                 LogError ''Received http status code from middleware other than 200'' None]\<rparr>,
      [HttpGet ''http://192.168.0.2:8845/''])
   \<and> client (fst (snd (RPCClient_Connect (network_answering 404) noise
         (fresh_client ''192.168.0.2:8845'')))) = None"
  by (simp add: RPCClient_Connect_def RPCClient_Ping_def log_Info_def log_Error_def Let_def
      network_answering_def fresh_client_def StatusOK_def)

text \<open>
  C6. In every run of \<^verbatim>\<open>Connect\<close> the steps taken are an initial piece of the
  sequence GET of the root path, websocket dial, noise handshake, creation of the rpc
  client, start of the websocket loops. The GET is always made; the dial is made exactly
  when the probe succeeded; the handshake exactly when the dial succeeded as well; the rpc
  client is created and the loops are started exactly when the handshake returned nil as
  well, and then \<^verbatim>\<open>Connect\<close> returns nil with the client set.
\<close>

theorem RPCClient_Connect_order:
  "RPCClient_Connect net noise c = (err, c', acts) \<Longrightarrow>
     prefix acts
       [HttpGet (''http://'' @ address c @ ''/''), WebsocketDial (''ws://'' @ address c @ ''/ws''),
        InitializeNoise, RpcNewClient, RunWebsocket]
     \<and> acts \<noteq> []
     \<and> (WebsocketDial (''ws://'' @ address c @ ''/ws'') \<in> set acts) =
         (http_Get net (''http://'' @ address c @ ''/'') = Inr StatusOK)
     \<and> (InitializeNoise \<in> set acts) =
         (http_Get net (''http://'' @ address c @ ''/'') = Inr StatusOK
          \<and> (\<exists>ws. websocket_Dial net (''ws://'' @ address c @ ''/ws'') = Inr ws))
     \<and> (RpcNewClient \<in> set acts) =
         (http_Get net (''http://'' @ address c @ ''/'') = Inr StatusOK
          \<and> (\<exists>ws. websocket_Dial net (''ws://'' @ address c @ ''/ws'') = Inr ws
                \<and> fst (noise ws (log_Info ''connecting to base websocket'' c)) = None))
     \<and> (RunWebsocket \<in> set acts) = (RpcNewClient \<in> set acts)
     \<and> (RunWebsocket \<in> set acts) = (err = None \<and> client c' = Some rpc_NewClient
          \<and> http_Get net (''http://'' @ address c @ ''/'') = Inr StatusOK)"
  by (auto simp: RPCClient_Connect_def RPCClient_Ping_def log_Info_def log_Error_def Let_def
      split: sum.splits if_splits option.splits prod.splits)

theorem RPCClient_Connect_order_witness:
  "RPCClient_Connect (network_answering 200) (\<lambda>ws c. (None, c)) (fresh_client ''192.168.0.2:8845'') =
     (None,
      (fresh_client ''192.168.0.2:8845'')
        \<lparr>log := [LogInfo ''connecting to base websocket''], client := Some rpc_NewClient\<rparr>,
      [HttpGet ''http://192.168.0.2:8845/'', WebsocketDial ''ws://192.168.0.2:8845/ws'',
       InitializeNoise, RpcNewClient, RunWebsocket])
   \<and> RunWebsocket \<in> set (snd (snd (RPCClient_Connect (network_answering 200) (\<lambda>ws c. (None, c))
         (fresh_client ''192.168.0.2:8845''))))"
proof -
  have run: "RPCClient_Connect (network_answering 200) (\<lambda>ws c. (None, c))
      (fresh_client ''192.168.0.2:8845'') =
     (None,
      (fresh_client ''192.168.0.2:8845'')
        \<lparr>log := [LogInfo ''connecting to base websocket''], client := Some rpc_NewClient\<rparr>,
      [HttpGet ''http://192.168.0.2:8845/'', WebsocketDial ''ws://192.168.0.2:8845/ws'',
       InitializeNoise, RpcNewClient, RunWebsocket])"
    by (simp add: RPCClient_Connect_def RPCClient_Ping_def log_Info_def Let_def
        network_answering_def fresh_client_def StatusOK_def)
  from RPCClient_Connect_order [OF run] run show ?thesis
    by (simp add: network_answering_def fresh_client_def StatusOK_def)
qed

section \<open>Properties of parseMessage\<close>

lemma parseMessage_returns: "\<exists>c'. parseMessage ops message c = Inr c'"
  by (cases message) (simp_all add: parseMessage_def go_index_def go_slice_from_def Let_def)

lemma parseMessage_dispatched:
  assumes "dispatched c1 = dispatched c2"
  shows "\<exists>c1' c2'. parseMessage ops message c1 = Inr c1' \<and> parseMessage ops message c2 = Inr c2'
           \<and> dispatched c1' = dispatched c2'"
  using assms
  by (cases message)
    (simp_all add: parseMessage_def go_index_def go_slice_from_def Let_def dispatched_def
      log_Error_def call_onEvent_def)

lemma readLoop_dispatched:
  "dispatched c1 = dispatched c2 \<Longrightarrow>
     \<exists>c1' c2'. readLoop ops messages c1 = Inr c1' \<and> readLoop ops messages c2 = Inr c2'
        \<and> dispatched c1' = dispatched c2'"
proof (induction messages arbitrary: c1 c2)
  case Nil
  then show ?case by simp
next
  case (Cons message messages)
  from parseMessage_dispatched [OF Cons.prems, of ops message]
  obtain d1 d2 where step: "parseMessage ops message c1 = Inr d1"
    "parseMessage ops message c2 = Inr d2" "dispatched d1 = dispatched d2"
    by blast
  from Cons.IH [OF step(3)] step(1,2) show ?case by simp
qed

lemma readLoop_returns: "\<exists>c'. readLoop ops messages c = Inr c'"
  using readLoop_dispatched [of c c ops messages] by blast

lemma log_Error_dispatched: "dispatched (log_Error msg e c) = dispatched c"
  by (simp add: dispatched_def log_Error_def)

text \<open>
  C3. A non-empty message \<open>b # rest\<close> is classified by \<open>string(b)\<close>. The sample-info
  opcode calls \<^verbatim>\<open>onEvent\<close> with the sample-info event, the verification-progress
  opcode with the verification-progress event, the RPC opcode sends \<open>rest\<close> on the read
  channel. Any other first byte only writes a log line: \<^verbatim>\<open>parseMessage\<close> returns, and
  the loop goes on to the frames behind it, which dispatch exactly what they dispatch
  without the dropped frame.
\<close>

theorem parseMessage_classifies:
  "opcodes_distinct ops \<Longrightarrow>
     (string_of_byte b = OpUCanHasSampleInfo ops \<longrightarrow>
        parseMessage ops (b # rest) c = Inr (c\<lparr>onEvent := onEvent c @ [EventSampleInfoChange]\<rparr>))
   \<and> (string_of_byte b = OpUCanHasVerificationProgress ops \<longrightarrow>
        parseMessage ops (b # rest) c =
          Inr (c\<lparr>onEvent := onEvent c @ [EventVerificationProgressChange]\<rparr>))
   \<and> (string_of_byte b = OpRPCCall ops \<longrightarrow>
        parseMessage ops (b # rest) c =
          Inr (c\<lparr>rpcConnection := (rpcConnection c)
                 \<lparr>readChan := readChan (rpcConnection c) @ [rest]\<rparr>\<rparr>))
   \<and> (string_of_byte b \<notin>
          {OpUCanHasSampleInfo ops, OpUCanHasVerificationProgress ops, OpRPCCall ops} \<longrightarrow>
        parseMessage ops (b # rest) c =
          Inr (c\<lparr>log := log c @ [LogError ''Received message without opCode, dropping.'' None]\<rparr>)
        \<and> (\<exists>c1 c2. readLoop ops ((b # rest) # messages) c = Inr c1
              \<and> readLoop ops messages c = Inr c2 \<and> dispatched c1 = dispatched c2))"
proof -
  assume ops: "opcodes_distinct ops"
  have sample: "string_of_byte b = OpUCanHasSampleInfo ops \<longrightarrow>
      parseMessage ops (b # rest) c = Inr (c\<lparr>onEvent := onEvent c @ [EventSampleInfoChange]\<rparr>)"
    by (simp add: parseMessage_def go_index_def call_onEvent_def Let_def)
  have progress: "string_of_byte b = OpUCanHasVerificationProgress ops \<longrightarrow>
      parseMessage ops (b # rest) c =
        Inr (c\<lparr>onEvent := onEvent c @ [EventVerificationProgressChange]\<rparr>)"
    using ops
    by (auto simp: parseMessage_def go_index_def call_onEvent_def Let_def opcodes_distinct_def)
  have rpc: "string_of_byte b = OpRPCCall ops \<longrightarrow>
      parseMessage ops (b # rest) c =
        Inr (c\<lparr>rpcConnection := (rpcConnection c)
               \<lparr>readChan := readChan (rpcConnection c) @ [rest]\<rparr>\<rparr>)"
    using ops
    by (auto simp: parseMessage_def go_index_def go_slice_from_def Let_def opcodes_distinct_def)
  have other: "string_of_byte b \<notin>
        {OpUCanHasSampleInfo ops, OpUCanHasVerificationProgress ops, OpRPCCall ops} \<longrightarrow>
      parseMessage ops (b # rest) c =
        Inr (c\<lparr>log := log c @ [LogError ''Received message without opCode, dropping.'' None]\<rparr>)
      \<and> (\<exists>c1 c2. readLoop ops ((b # rest) # messages) c = Inr c1
            \<and> readLoop ops messages c = Inr c2 \<and> dispatched c1 = dispatched c2)"
  proof
    assume unknown: "string_of_byte b \<notin>
        {OpUCanHasSampleInfo ops, OpUCanHasVerificationProgress ops, OpRPCCall ops}"
    then have drop: "parseMessage ops (b # rest) c =
        Inr (log_Error ''Received message without opCode, dropping.'' None c)"
      by (simp add: parseMessage_def go_index_def Let_def)
    from readLoop_dispatched [OF log_Error_dispatched, of ops messages
        "''Received message without opCode, dropping.''" None c]
    have "\<exists>c1 c2. readLoop ops ((b # rest) # messages) c = Inr c1
          \<and> readLoop ops messages c = Inr c2 \<and> dispatched c1 = dispatched c2"
      by (simp add: drop)
    with drop show "parseMessage ops (b # rest) c =
        Inr (c\<lparr>log := log c @ [LogError ''Received message without opCode, dropping.'' None]\<rparr>)
      \<and> (\<exists>c1 c2. readLoop ops ((b # rest) # messages) c = Inr c1
            \<and> readLoop ops messages c = Inr c2 \<and> dispatched c1 = dispatched c2)"
      by (simp add: log_Error_def)
  qed
  from sample progress rpc other show ?thesis by blast
qed

lemma letter_opcodes_distinct: "opcodes_distinct letter_opcodes"
  by (simp add: opcodes_distinct_def letter_opcodes_def)

lemma string_of_byte_ascii: "b < 0x80 \<Longrightarrow> string_of_byte b = [b]"
  by (simp add: string_of_byte_def)

lemma string_of_byte_high: "\<not> b < 0x80 \<Longrightarrow> length (string_of_byte b) = 2"
  by (simp add: string_of_byte_def)

lemma fresh_client_fields:
  "log (fresh_client a) = []" "onEvent (fresh_client a) = []"
  "rpcConnection (fresh_client a) = \<lparr>readChan = [], writeChan = [], closeChan = Some 0\<rparr>"
  by (simp_all add: fresh_client_def)

theorem parseMessage_classifies_witness:
  "parseMessage letter_opcodes [0x64, 1] (fresh_client ''base'') =
     Inr ((fresh_client ''base'')\<lparr>onEvent := [EventSampleInfoChange]\<rparr>)
   \<and> parseMessage letter_opcodes [0x76] (fresh_client ''base'') =
     Inr ((fresh_client ''base'')\<lparr>onEvent := [EventVerificationProgressChange]\<rparr>)
   \<and> parseMessage letter_opcodes [0x72, 7, 8] (fresh_client ''base'') =
     Inr ((fresh_client ''base'')
       \<lparr>rpcConnection := \<lparr>readChan = [[7, 8]], writeChan = [], closeChan = Some 0\<rparr>\<rparr>)
   \<and> parseMessage letter_opcodes [0xE9, 1] (fresh_client ''base'') =
     Inr ((fresh_client ''base'')
       \<lparr>log := [LogError ''Received message without opCode, dropping.'' None]\<rparr>)
   \<and> (\<exists>c1 c2. readLoop letter_opcodes [[0xE9, 1], [0x64]] (fresh_client ''base'') = Inr c1
         \<and> readLoop letter_opcodes [[0x64]] (fresh_client ''base'') = Inr c2
         \<and> dispatched c1 = dispatched c2)"
proof -
  note classify = parseMessage_classifies [OF letter_opcodes_distinct]
  have d: "string_of_byte 0x64 = OpUCanHasSampleInfo letter_opcodes"
    by (simp add: string_of_byte_ascii letter_opcodes_def)
  have v: "string_of_byte 0x76 = OpUCanHasVerificationProgress letter_opcodes"
    by (simp add: string_of_byte_ascii letter_opcodes_def)
  have r: "string_of_byte 0x72 = OpRPCCall letter_opcodes"
    by (simp add: string_of_byte_ascii letter_opcodes_def)
  have "length (string_of_byte 0xE9) = 2"
    by (simp add: string_of_byte_high)
  then have e: "string_of_byte 0xE9 \<notin> {OpUCanHasSampleInfo letter_opcodes,
      OpUCanHasVerificationProgress letter_opcodes, OpRPCCall letter_opcodes}"
    by (auto simp: letter_opcodes_def)
  from classify [of "0x64" "[1]" "fresh_client ''base''"] d
  have "parseMessage letter_opcodes [0x64, 1] (fresh_client ''base'') =
     Inr ((fresh_client ''base'')\<lparr>onEvent := onEvent (fresh_client ''base'') @ [EventSampleInfoChange]\<rparr>)"
    by blast
  then have 1: "parseMessage letter_opcodes [0x64, 1] (fresh_client ''base'') =
     Inr ((fresh_client ''base'')\<lparr>onEvent := [EventSampleInfoChange]\<rparr>)"
    by (simp only: fresh_client_fields append_Nil)
  from classify [of "0x76" "[]" "fresh_client ''base''"] v
  have "parseMessage letter_opcodes [0x76] (fresh_client ''base'') =
     Inr ((fresh_client ''base'')
       \<lparr>onEvent := onEvent (fresh_client ''base'') @ [EventVerificationProgressChange]\<rparr>)"
    by blast
  then have 2: "parseMessage letter_opcodes [0x76] (fresh_client ''base'') =
     Inr ((fresh_client ''base'')\<lparr>onEvent := [EventVerificationProgressChange]\<rparr>)"
    by (simp only: fresh_client_fields append_Nil)
  from classify [of "0x72" "[7, 8]" "fresh_client ''base''"] r
  have "parseMessage letter_opcodes [0x72, 7, 8] (fresh_client ''base'') =
     Inr ((fresh_client ''base'')
       \<lparr>rpcConnection := (rpcConnection (fresh_client ''base''))
          \<lparr>readChan := readChan (rpcConnection (fresh_client ''base'')) @ [[7, 8]]\<rparr>\<rparr>)"
    by blast
  then have 3: "parseMessage letter_opcodes [0x72, 7, 8] (fresh_client ''base'') =
     Inr ((fresh_client ''base'')
       \<lparr>rpcConnection := \<lparr>readChan = [[7, 8]], writeChan = [], closeChan = Some 0\<rparr>\<rparr>)"
    by (simp add: fresh_client_fields)
  from classify [of "0xE9" "[1]" "fresh_client ''base''" "[[0x64]]"] e
  have "parseMessage letter_opcodes [0xE9, 1] (fresh_client ''base'') =
     Inr ((fresh_client ''base'')
       \<lparr>log := log (fresh_client ''base'')
          @ [LogError ''Received message without opCode, dropping.'' None]\<rparr>)"
    and 5: "\<exists>c1 c2. readLoop letter_opcodes [[0xE9, 1], [0x64]] (fresh_client ''base'') = Inr c1
         \<and> readLoop letter_opcodes [[0x64]] (fresh_client ''base'') = Inr c2
         \<and> dispatched c1 = dispatched c2"
    by blast+
  then have 4: "parseMessage letter_opcodes [0xE9, 1] (fresh_client ''base'') =
     Inr ((fresh_client ''base'')
       \<lparr>log := [LogError ''Received message without opCode, dropping.'' None]\<rparr>)"
    by (simp only: fresh_client_fields append_Nil)
  from 1 2 3 4 5 show ?thesis by blast
qed

lemma parseMessage_blocking_receiver:
  "parseMessage_blocking ops True message c = Some (parseMessage ops message c)"
  by (simp add: parseMessage_blocking_def parseMessage_def go_send_def Let_def
      split: sum.splits)

lemma parseMessage_blocking_result:
  "parseMessage_blocking ops receiver message c \<in> {None, Some (parseMessage ops message c)}"
  by (cases receiver)
    (auto simp: parseMessage_blocking_def parseMessage_def go_send_def Let_def
      split: sum.splits)

lemma parseMessage_blocking_no_panic:
  "parseMessage_blocking ops receiver message c \<noteq> Some (Inl pnc)"
  using parseMessage_blocking_result [of ops receiver message c]
    parseMessage_returns [of ops message c]
  by auto

lemma parseMessage_blocking_None:
  "(parseMessage_blocking ops receiver message c = None) =
     (\<not> receiver
      \<and> (\<exists>b rest. message = b # rest
            \<and> string_of_byte b \<noteq> OpUCanHasSampleInfo ops
            \<and> string_of_byte b \<noteq> OpUCanHasVerificationProgress ops
            \<and> string_of_byte b = OpRPCCall ops))"
  by (cases message)
    (auto simp: parseMessage_blocking_def go_index_def go_slice_from_def go_send_def Let_def)

text \<open>
  C9 as it stands fails: an RPC frame arrives while nobody receives from the read channel.
  The read of the first byte and the slice are in range, and the call then stays in the send.
\<close>

theorem parseMessage_blocks_without_receiver:
  "parseMessage_blocking letter_opcodes False [0x72, 7, 8]
     ((fresh_client ''base'')\<lparr>client := Some rpc_NewClient\<rparr>) = None"
  by (simp add: parseMessage_blocking_def go_index_def go_slice_from_def go_send_def Let_def
      string_of_byte_def letter_opcodes_def)

text \<open>
  C9, amended. For every message, the empty one included, \<^verbatim>\<open>parseMessage\<close> never
  panics: neither the read of the first byte nor the slice behind it is out of range. It
  returns for every message but one kind: a message that reaches the RPC case returns
  exactly when a receiver takes it from the read channel, and with no receiver the call
  blocks in the send. Whenever the call returns, and always when a receiver is there, its
  result is what the message dispatches. The empty message only writes its log line: no
  event is fired and nothing is sent on the read channel, receiver or not.
\<close>

theorem parseMessage_panic_free_blocks_in_send_only:
  "(\<forall>pnc. parseMessage_blocking ops receiver message c \<noteq> Some (Inl pnc))
   \<and> (parseMessage_blocking ops receiver message c = None) =
       (\<not> receiver
        \<and> (\<exists>b rest. message = b # rest
              \<and> string_of_byte b \<noteq> OpUCanHasSampleInfo ops
              \<and> string_of_byte b \<noteq> OpUCanHasVerificationProgress ops
              \<and> string_of_byte b = OpRPCCall ops))
   \<and> parseMessage_blocking ops receiver message c \<in> {None, Some (parseMessage ops message c)}
   \<and> parseMessage_blocking ops True message c = Some (parseMessage ops message c)
   \<and> parseMessage_blocking ops receiver [] c =
       Some (Inr (c\<lparr>log := log c @ [LogError ''Received empty message, dropping.'' None]\<rparr>))
   \<and> (\<exists>c'. parseMessage_blocking ops receiver [] c = Some (Inr c')
         \<and> dispatched c' = dispatched c)"
proof -
  have empty: "parseMessage_blocking ops receiver [] c =
      Some (Inr (c\<lparr>log := log c @ [LogError ''Received empty message, dropping.'' None]\<rparr>))"
    by (simp add: parseMessage_blocking_def log_Error_def)
  then have quiet: "\<exists>c'. parseMessage_blocking ops receiver [] c = Some (Inr c')
      \<and> dispatched c' = dispatched c"
    by (simp add: dispatched_def)
  have safe: "\<forall>pnc. parseMessage_blocking ops receiver message c \<noteq> Some (Inl pnc)"
    by (simp add: parseMessage_blocking_no_panic)
  from safe parseMessage_blocking_None [of ops receiver message c]
    parseMessage_blocking_result [of ops receiver message c]
    parseMessage_blocking_receiver [of ops message c] empty quiet
  show ?thesis by blast
qed

theorem parseMessage_panic_free_blocks_in_send_only_witness:
  "parseMessage_blocking letter_opcodes True [0x72, 7, 8] (fresh_client ''base'')
     = Some (parseMessage letter_opcodes [0x72, 7, 8] (fresh_client ''base''))
   \<and> parseMessage_blocking letter_opcodes False [0x72, 7, 8] (fresh_client ''base'') = None
   \<and> parseMessage_blocking letter_opcodes False [0x64, 1] (fresh_client ''base'') \<noteq> None
   \<and> parseMessage_blocking letter_opcodes False [] (fresh_client ''base'') \<noteq> None"
proof -
  note split = parseMessage_panic_free_blocks_in_send_only
  have r: "string_of_byte 0x72 = OpRPCCall letter_opcodes"
    "string_of_byte 0x72 \<noteq> OpUCanHasSampleInfo letter_opcodes"
    "string_of_byte 0x72 \<noteq> OpUCanHasVerificationProgress letter_opcodes"
    by (simp_all add: string_of_byte_ascii letter_opcodes_def)
  have d: "string_of_byte 0x64 = OpUCanHasSampleInfo letter_opcodes"
    by (simp add: string_of_byte_ascii letter_opcodes_def)
  from split [of letter_opcodes True "[0x72, 7, 8]" "fresh_client ''base''"]
  have 1: "parseMessage_blocking letter_opcodes True [0x72, 7, 8] (fresh_client ''base'')
     = Some (parseMessage letter_opcodes [0x72, 7, 8] (fresh_client ''base''))"
    by blast
  from split [of letter_opcodes False "[0x72, 7, 8]" "fresh_client ''base''"] r
  have 2: "parseMessage_blocking letter_opcodes False [0x72, 7, 8] (fresh_client ''base'') = None"
    by simp
  from split [of letter_opcodes False "[0x64, 1]" "fresh_client ''base''"] d
  have 3: "parseMessage_blocking letter_opcodes False [0x64, 1] (fresh_client ''base'') \<noteq> None"
    by simp
  from split [of letter_opcodes False "[]" "fresh_client ''base''"]
  have 4: "parseMessage_blocking letter_opcodes False [] (fresh_client ''base'') \<noteq> None"
    by simp
  from 1 2 3 4 show ?thesis by blast
qed

section \<open>Properties of the BitBoxBase operations\<close>

lemma fireEvent_status: "status (fireEvent e base) = status base"
  by (simp add: fireEvent_def)

lemma changeStatus_status: "status (changeStatus st base) = st"
  by (simp add: changeStatus_def fireEvent_def)

text \<open>The operations that make no call to \<^verbatim>\<open>changeStatus\<close> leave the status alone.\<close>

lemma GetHostname_status: "status (snd (BitBoxBase_GetHostname srv base)) = status base"
  by (simp add: BitBoxBase_GetHostname_def base_Println_def Let_def
      split: prod.splits option.splits)

lemma SetHostname_status: "status (snd (BitBoxBase_SetHostname srv h base)) = status base"
  by (simp add: BitBoxBase_SetHostname_def base_Println_def Let_def
      split: prod.splits option.splits)

lemma MountFlashdrive_status: "status (snd (BitBoxBase_MountFlashdrive srv base)) = status base"
  by (simp add: BitBoxBase_MountFlashdrive_def base_Println_def Let_def
      split: prod.splits option.splits)

lemma inactive_ReindexBitcoin:
  "\<not> active base \<Longrightarrow> BitBoxBase_ReindexBitcoin srv base =
     (Some (ErrpNew ''Attempted a call to non-active base''), base)"
  by (simp add: BitBoxBase_ReindexBitcoin_def)

lemma inactive_ResyncBitcoin:
  "\<not> active base \<Longrightarrow> BitBoxBase_ResyncBitcoin srv base =
     (Some (ErrpNew ''Attempted a call to non-active base''), base)"
  by (simp add: BitBoxBase_ResyncBitcoin_def)

text \<open>
  On an active base \<^verbatim>\<open>ReindexBitcoin\<close> and \<^verbatim>\<open>ResyncBitcoin\<close> call
  \<^verbatim>\<open>changeStatus\<close> before they look at the outcome of the call.
\<close>

lemma active_ReindexBitcoin_status:
  "active base \<Longrightarrow> status (snd (BitBoxBase_ReindexBitcoin srv base)) = StatusInitialized"
  by (simp add: BitBoxBase_ReindexBitcoin_def changeStatus_def fireEvent_def Let_def
      split: prod.splits option.splits)

lemma active_ResyncBitcoin_status:
  "active base \<Longrightarrow> status (snd (BitBoxBase_ResyncBitcoin srv base)) = StatusInitialized"
  by (simp add: BitBoxBase_ResyncBitcoin_def changeStatus_def fireEvent_def Let_def
      split: prod.splits option.splits)

text \<open>
  C4, evaluated where it fails. An active base of status \<^verbatim>\<open>StatusConnected\<close> calls
  \<^verbatim>\<open>ReindexBitcoin\<close> and \<^verbatim>\<open>ResyncBitcoin\<close>; the call fails in the transport, or the
  reply has \<^verbatim>\<open>Success\<close> false. The error goes back to the caller, and the status of
  the base is \<^verbatim>\<open>StatusInitialized\<close> afterwards, with a status-change event notified.
\<close>

theorem Reindex_Resync_failure_changes_status:
  "status connected_base = StatusConnected
   \<and> fst (BitBoxBase_ReindexBitcoin server_shut_down connected_base)
       = Some (ErrpWithStack (LibraryError ''connection is shut down''))
   \<and> status (snd (BitBoxBase_ReindexBitcoin server_shut_down connected_base)) = StatusInitialized
   \<and> map Object (notified (snd (BitBoxBase_ReindexBitcoin server_shut_down connected_base)))
       = [EventStatusChange]
   \<and> fst (BitBoxBase_ReindexBitcoin server_refusing connected_base)
       = Some (ReplyError \<lparr>Success = False, Detail = ''script failed''\<rparr>)
   \<and> status (snd (BitBoxBase_ReindexBitcoin server_refusing connected_base)) = StatusInitialized
   \<and> fst (BitBoxBase_ResyncBitcoin server_shut_down connected_base)
       = Some (ErrpWithStack (LibraryError ''connection is shut down''))
   \<and> status (snd (BitBoxBase_ResyncBitcoin server_shut_down connected_base)) = StatusInitialized
   \<and> fst (BitBoxBase_ResyncBitcoin server_refusing connected_base)
       = Some (ReplyError \<lparr>Success = False, Detail = ''script failed''\<rparr>)
   \<and> status (snd (BitBoxBase_ResyncBitcoin server_refusing connected_base)) = StatusInitialized"
  by (simp add: BitBoxBase_ReindexBitcoin_def BitBoxBase_ResyncBitcoin_def
      RPCClient_ReindexBitcoin_def RPCClient_ResyncBitcoin_def changeStatus_def fireEvent_def
      base_Println_def log_Info_def Let_def connected_base_def server_shut_down_def
      server_refusing_def)

text \<open>
  C7. \<^verbatim>\<open>GetHostname\<close> returns a nil error exactly when the base is active, the call
  returned a reply and the reply's \<^verbatim>\<open>ErrorResponse\<close> has \<^verbatim>\<open>Success\<close> true; the
  string returned is then the reply's hostname. In every other case the string is empty and
  the error is not nil.
\<close>

theorem GetHostname_result:
  "(snd (fst (BitBoxBase_GetHostname srv base)) = None) =
     (active base
      \<and> (\<exists>reply. Call_GetHostnameResponse srv ''RPCServer.GetHostname'' DummyArg = Inr reply
            \<and> Success (ErrorResponse reply)))
   \<and> (\<forall>reply. active base
        \<and> Call_GetHostnameResponse srv ''RPCServer.GetHostname'' DummyArg = Inr reply
        \<and> Success (ErrorResponse reply)
        \<longrightarrow> fst (BitBoxBase_GetHostname srv base) = (Hostname reply, None))
   \<and> (snd (fst (BitBoxBase_GetHostname srv base)) \<noteq> None
        \<longrightarrow> fst (fst (BitBoxBase_GetHostname srv base)) = [])"
  by (auto simp: BitBoxBase_GetHostname_def RPCClient_GetHostname_def Let_def
      split: sum.splits)

theorem GetHostname_result_witness:
  "fst (BitBoxBase_GetHostname server_answering connected_base) = (''bitbox-base'', None)
   \<and> fst (BitBoxBase_GetHostname server_refusing connected_base)
       = ([], Some (ReplyError \<lparr>Success = False, Detail = ''script failed''\<rparr>))
   \<and> fst (fst (BitBoxBase_GetHostname server_shut_down connected_base)) = []
   \<and> fst (fst (BitBoxBase_GetHostname server_answering (connected_base\<lparr>active := False\<rparr>))) = []"
proof -
  have act: "active connected_base"
    by (simp add: connected_base_def)
  have call: "Call_GetHostnameResponse server_answering ''RPCServer.GetHostname'' DummyArg
      = Inr \<lparr>ErrorResponse = \<lparr>Success = True, Detail = []\<rparr>, Hostname = ''bitbox-base''\<rparr>"
    by (simp add: server_answering_def)
  from GetHostname_result [of server_answering connected_base] act call
  have 1: "fst (BitBoxBase_GetHostname server_answering connected_base) = (''bitbox-base'', None)"
    by simp
  have "snd (fst (BitBoxBase_GetHostname server_shut_down connected_base)) \<noteq> None"
    using GetHostname_result [of server_shut_down connected_base]
    by (simp add: server_shut_down_def)
  with GetHostname_result [of server_shut_down connected_base]
  have 2: "fst (fst (BitBoxBase_GetHostname server_shut_down connected_base)) = []"
    by blast
  have "snd (fst (BitBoxBase_GetHostname server_answering (connected_base\<lparr>active := False\<rparr>)))
      \<noteq> None"
    using GetHostname_result [of server_answering "connected_base\<lparr>active := False\<rparr>"]
    by simp
  with GetHostname_result [of server_answering "connected_base\<lparr>active := False\<rparr>"]
  have 3: "fst (fst (BitBoxBase_GetHostname server_answering (connected_base\<lparr>active := False\<rparr>)))
      = []"
    by blast
  have 4: "fst (BitBoxBase_GetHostname server_refusing connected_base)
       = ([], Some (ReplyError \<lparr>Success = False, Detail = ''script failed''\<rparr>))"
    by (simp add: BitBoxBase_GetHostname_def RPCClient_GetHostname_def Let_def
        connected_base_def server_refusing_def)
  from 1 2 3 4 show ?thesis by blast
qed

section \<open>Properties of the pairing store\<close>

lemma initializeNoise_mismatch:
  "Lookup (pinnedRemoteKey c) (address c) = Some pinned \<Longrightarrow> peer ws = Inr pubkey \<Longrightarrow>
     pubkey \<noteq> pinned \<Longrightarrow> initializeNoise peer ws c = (Some PinMismatch, c)"
  by (simp add: initializeNoise_def)

lemma initializeNoise_first_use:
  "Lookup (pinnedRemoteKey c) (address c) = None \<Longrightarrow> peer ws = Inr pubkey \<Longrightarrow>
     fst (initializeNoise peer ws c) = None
     \<and> Lookup (pinnedRemoteKey (snd (initializeNoise peer ws c))) (address c) = Some pubkey"
  by (simp add: initializeNoise_def Lookup_def Pin_def)

lemma Connect_keeps_pin:
  "Lookup (pinnedRemoteKey c) (address c) = Some pinned \<Longrightarrow>
     address (fst (snd (RPCClient_Connect net (initializeNoise peer) c))) = address c
     \<and> pinnedRemoteKey (fst (snd (RPCClient_Connect net (initializeNoise peer) c)))
         = pinnedRemoteKey c"
  by (simp add: RPCClient_Connect_def RPCClient_Ping_def log_Info_def log_Error_def Let_def
      initializeNoise_def split: sum.splits option.splits prod.splits)

lemma run_actions_keeps_pin:
  "Lookup (pinnedRemoteKey c) (address c) = Some pinned \<Longrightarrow> RePair \<notin> set actions \<Longrightarrow>
     address (run_actions actions c) = address c
     \<and> pinnedRemoteKey (run_actions actions c) = pinnedRemoteKey c"
proof (induction actions c rule: run_actions.induct)
  case (1 c)
  then show ?case by simp
next
  case (2 net peer rest c)
  let ?c = "fst (snd (RPCClient_Connect net (initializeNoise peer) c))"
  from Connect_keeps_pin [OF "2.prems"(1), of net peer]
  have keep: "address ?c = address c" "pinnedRemoteKey ?c = pinnedRemoteKey c"
    by simp_all
  with "2.prems" have "Lookup (pinnedRemoteKey ?c) (address ?c) = Some pinned"
    by simp
  from "2.IH" [OF this] "2.prems"(2) keep show ?case by simp
next
  case (3 rest c)
  then show ?case by simp
qed

lemma Connect_mismatch:
  assumes pin: "Lookup (pinnedRemoteKey c) (address c) = Some pinned"
    and peer: "\<And>ws. peer ws = Inr pubkey" and diff: "pubkey \<noteq> pinned"
    and run: "RPCClient_Connect net (initializeNoise peer) c = (err, c', acts)"
  shows "(InitializeNoise \<notin> set acts \<or> err = Some PinMismatch)
     \<and> RpcNewClient \<notin> set acts \<and> RunWebsocket \<notin> set acts
     \<and> client c' = client c \<and> rpcConnection c' = rpcConnection c"
  using run
  by (auto simp add: RPCClient_Connect_def RPCClient_Ping_def log_Info_def log_Error_def Let_def
      initializeNoise_mismatch [OF _ peer diff] pin
      split: sum.splits option.splits prod.splits if_splits)

text \<open>
  C1. The appliance of the client has a pinned key, and the remote presents another key in
  the handshake. The handshake ends in the security error and leaves the struct and the
  store as they were. Any run of \<^verbatim>\<open>Connect\<close> that reaches the handshake returns that
  error; no run creates the rpc client or starts the loops that read RPC payloads, and the
  pinned key stands. Over any sequence of connection attempts, whatever key each peer
  presents, the pinned key stays the same as long as the user does not re-pair.
\<close>

theorem pinned_key_mismatch_rejected:
  assumes "Lookup (pinnedRemoteKey c) (address c) = Some pinned"
    and "\<And>ws. peer ws = Inr pubkey"
    and "pubkey \<noteq> pinned"
    and "RPCClient_Connect net (initializeNoise peer) c = (err, c', acts)"
    and "RePair \<notin> set actions"
  shows "initializeNoise peer ws c = (Some PinMismatch, c)
     \<and> (InitializeNoise \<notin> set acts \<or> err = Some PinMismatch)
     \<and> RpcNewClient \<notin> set acts \<and> RunWebsocket \<notin> set acts
     \<and> client c' = client c \<and> rpcConnection c' = rpcConnection c
     \<and> Lookup (pinnedRemoteKey c') (address c) = Some pinned
     \<and> Lookup (pinnedRemoteKey (run_actions actions c)) (address c) = Some pinned"
proof -
  have handshake: "initializeNoise peer ws c = (Some PinMismatch, c)"
    using assms(1,2,3) by (rule initializeNoise_mismatch)
  have "c' = fst (snd (RPCClient_Connect net (initializeNoise peer) c))"
    using assms(4) by simp
  with Connect_keeps_pin [OF assms(1), of net peer] assms(1)
  have kept: "Lookup (pinnedRemoteKey c') (address c) = Some pinned"
    by simp
  from run_actions_keeps_pin [OF assms(1,5)] assms(1)
  have always: "Lookup (pinnedRemoteKey (run_actions actions c)) (address c) = Some pinned"
    by simp
  from handshake Connect_mismatch [OF assms(1,2,3,4)] kept always show ?thesis
    by blast
qed

theorem pinned_key_mismatch_rejected_witness:
  "fst (RPCClient_Connect (network_answering 200) (initializeNoise (\<lambda>_. Inr [9, 9, 9]))
      paired_client) = Some PinMismatch
   \<and> snd (snd (RPCClient_Connect (network_answering 200) (initializeNoise (\<lambda>_. Inr [9, 9, 9]))
      paired_client))
     = [HttpGet ''http://192.168.0.2:8845/'', WebsocketDial ''ws://192.168.0.2:8845/ws'',
        InitializeNoise]
   \<and> Lookup (pinnedRemoteKey (run_actions
        [ConnectTo (network_answering 200) (\<lambda>_. Inr [9, 9, 9]),
         ConnectTo (network_answering 200) (\<lambda>_. Inr [1, 2, 3])] paired_client))
        ''192.168.0.2:8845'' = Some [1, 2, 3]"
proof -
  have pin: "Lookup (pinnedRemoteKey paired_client) (address paired_client) = Some [1, 2, 3]"
    by (simp add: paired_client_def Lookup_def Pin_def)
  have addr: "address paired_client = ''192.168.0.2:8845''"
    by (simp add: paired_client_def)
  have diff: "[9, 9, 9] \<noteq> [1, 2, (3::byte)]"
    by simp
  obtain err c' acts where run: "RPCClient_Connect (network_answering 200)
      (initializeNoise (\<lambda>_. Inr [9, 9, 9])) paired_client = (err, c', acts)"
    by (cases "RPCClient_Connect (network_answering 200)
      (initializeNoise (\<lambda>_. Inr [9, 9, 9])) paired_client") blast
  have acts: "snd (snd (RPCClient_Connect (network_answering 200)
      (initializeNoise (\<lambda>_. Inr [9, 9, 9])) paired_client))
     = [HttpGet ''http://192.168.0.2:8845/'', WebsocketDial ''ws://192.168.0.2:8845/ws'',
        InitializeNoise]"
    by (simp add: RPCClient_Connect_def RPCClient_Ping_def log_Info_def Let_def
        network_answering_def StatusOK_def initializeNoise_def Lookup_def Pin_def
        paired_client_def)
  have free: "RePair \<notin> set [ConnectTo (network_answering 200) (\<lambda>_. Inr [9, 9, 9]),
         ConnectTo (network_answering 200) (\<lambda>_. Inr [1, 2, 3])]"
    by simp
  from pinned_key_mismatch_rejected
    [where peer = "\<lambda>_. Inr [9, 9, 9]" and pubkey = "[9, 9, 9]", OF pin refl diff run free]
    run acts addr
  show ?thesis by auto
qed

end
